theory Spec2Isabelle
  imports Main "HOL-Library.Sublist"
begin

section \<open>The iotencoder server: startup and shutdown orchestration\<close>

text \<open>
  The development embeds \<^verbatim>\<open>pkg/server/server.go\<close>: the handler \<^verbatim>\<open>PulseHandler\<close>, the
  composition root \<^verbatim>\<open>NewServer\<close> and the two orchestration methods \<^verbatim>\<open>Server.Start\<close> and
  \<^verbatim>\<open>Server.Stop\<close>. The collaborators (\<^verbatim>\<open>postgres.DB\<close>, \<^verbatim>\<open>mqtt.Client\<close>, \<^verbatim>\<open>rpc.Encoder\<close>,
  \<^verbatim>\<open>http.Server\<close>) are outside the file; what each of their calls does is a parameter of
  the model, and the model records the calls the server makes, in the order it makes them.
\<close>

subsection \<open>Errors\<close>

text \<open>
  A Go \<^verbatim>\<open>error\<close> value. \<^verbatim>\<open>errors.Wrap(err, msg)\<close> keeps the cause and prefixes the message;
  \<^verbatim>\<open>DeadlineExceeded\<close> is \<^verbatim>\<open>context.DeadlineExceeded\<close>, the value of \<^verbatim>\<open>ctx.Err()\<close> once the
  deadline of a context has passed.
\<close>

datatype error = Error string | Wrap error string | DeadlineExceeded

fun Error_string :: "error \<Rightarrow> string" where
  "Error_string (Error s) = s"
| "Error_string (Wrap err msg) = msg @ '': '' @ Error_string err"
| "Error_string DeadlineExceeded = ''context deadline exceeded''"

subsection \<open>Calls, outcomes and results\<close>

text \<open>
  The two fields of \<^verbatim>\<open>Server\<close> that have an interface type: \<^verbatim>\<open>db postgres.DB\<close> and
  \<^verbatim>\<open>mqtt mqtt.Client\<close>. Their \<^verbatim>\<open>Start\<close> and \<^verbatim>\<open>Stop\<close> are reached through the type assertion
  \<^verbatim>\<open>s.db.(system.Component)\<close>, in its one-valued form, which panics when the dynamic type
  of the handle does not implement \<^verbatim>\<open>system.Component\<close>.
\<close>

datatype handle = DB | MQTT

text \<open>\<^verbatim>\<open>context.WithTimeout(context.Background(), d)\<close>, the duration in nanoseconds.\<close>

datatype go_context = WithTimeout nat

definition Second :: nat where
  "Second = 1000000000"

text \<open>
  What the server does to its collaborators, each call with the arguments the source
  gives it. Only \<^verbatim>\<open>s.srv.Shutdown(ctx)\<close> takes a context; the \<^verbatim>\<open>Start()\<close>, \<^verbatim>\<open>Stop()\<close> and
  \<^verbatim>\<open>MigrateUp()\<close> of the components take no argument. Calls of the logger are left out.
\<close>

datatype call =
    AssertComponent handle
  | DbStart
  | MqttStart
  | DbMigrateUp
  | EncStart
  | SignalNotify
  | GoListenAndServe
  | EncStop
  | MqttStop
  | DbStop
  | SrvShutdown go_context

text \<open>
  What a call of a component does: it returns \<^verbatim>\<open>nil\<close>, it returns an error, or it never
  returns.
\<close>

datatype outcome = Ok | Fails error | Hangs

text \<open>
  How a method of the server ends: it returns (\<open>None\<close> is \<^verbatim>\<open>nil\<close>), it panics on a failed
  type assertion, it blocks for ever, or the process leaves through \<^verbatim>\<open>os.Exit\<close>.
\<close>

datatype result = Returns "error option" | Panics | Blocks | Exits nat

text \<open>
  The collaborators as the server meets them. \<open>srv_ListenAndServe\<close> is \<open>Some err\<close> when
  \<^verbatim>\<open>ListenAndServe\<close> returns \<open>err\<close> before an interrupt arrives (the address is in use, say)
  and \<open>None\<close> when it serves until then; \<open>interrupt\<close> says whether \<^verbatim>\<open>os.Interrupt\<close> is ever
  delivered to \<^verbatim>\<open>stopChan\<close>; \<open>srv_idle_after\<close> is the time, in nanoseconds from the creation of
  the context at the head of \<^verbatim>\<open>Stop\<close>, from which \<^verbatim>\<open>Shutdown\<close> finds no active connection
  (\<open>None\<close>: never).
\<close>

record collaborators =
  db_is_Component :: bool
  mqtt_is_Component :: bool
  db_Start :: outcome
  mqtt_Start :: outcome
  db_MigrateUp :: outcome
  enc_Start :: outcome
  srv_ListenAndServe :: "error option"
  interrupt :: bool
  enc_Stop :: outcome
  mqtt_Stop :: outcome
  db_Stop :: outcome
  srv_idle_after :: "nat option"

text \<open>
  One statement \<^verbatim>\<open>err := x.M(); if err != nil { return f(err) }\<close> followed by the rest of
  the method: the call is recorded; the rest runs only when the call returned \<^verbatim>\<open>nil\<close>.
\<close>

definition invoke ::
  "call \<Rightarrow> outcome \<Rightarrow> (error \<Rightarrow> error) \<Rightarrow> call list \<times> result \<Rightarrow> call list \<times> result" where
  "invoke c out onerr rest =
     (case out of
        Ok \<Rightarrow> (c # fst rest, snd rest)
      | Fails err \<Rightarrow> ([c], Returns (Some (onerr err)))
      | Hangs \<Rightarrow> ([c], Blocks))"

text \<open>The type assertion \<^verbatim>\<open>h.(system.Component)\<close> followed by the rest of the method.\<close>

definition assert_Component :: "handle \<Rightarrow> bool \<Rightarrow> call list \<times> result \<Rightarrow> call list \<times> result" where
  "assert_Component h implements rest =
     (if implements then (AssertComponent h # fst rest, snd rest)
      else ([AssertComponent h], Panics))"

text \<open>
  \<^verbatim>\<open>http.Server.Shutdown(ctx)\<close>: it returns \<^verbatim>\<open>nil\<close> once every connection is idle, and
  \<^verbatim>\<open>ctx.Err()\<close> when the context is done before that.
\<close>

fun Shutdown :: "nat option \<Rightarrow> go_context \<Rightarrow> error option" where
  "Shutdown None (WithTimeout d) = Some DeadlineExceeded"
| "Shutdown (Some t) (WithTimeout d) = (if t \<le> d then None else Some DeadlineExceeded)"

subsection \<open>Server.Stop and Server.Start\<close>

definition Stop :: "collaborators \<Rightarrow> call list \<times> result" where
  "Stop s =
     (let ctx = WithTimeout (5 * Second) in
      invoke EncStop (enc_Stop s) (\<lambda>err. err)
       (assert_Component MQTT (mqtt_is_Component s)
         (invoke MqttStop (mqtt_Stop s) (\<lambda>err. err)
           (assert_Component DB (db_is_Component s)
             (invoke DbStop (db_Stop s) (\<lambda>err. err)
               ([SrvShutdown ctx], Returns (Shutdown (srv_idle_after s) ctx)))))))"

text \<open>
  The end of \<^verbatim>\<open>Start\<close>: the signal channel, the goroutine that runs \<^verbatim>\<open>ListenAndServe\<close>
  (and leaves with \<^verbatim>\<open>os.Exit(1)\<close> when that returns an error), the wait on \<^verbatim>\<open>stopChan\<close>, and
  \<^verbatim>\<open>return s.Stop()\<close>.
\<close>

definition serve :: "collaborators \<Rightarrow> call list \<times> result" where
  "serve s =
     (case srv_ListenAndServe s of
        Some err \<Rightarrow> ([SignalNotify, GoListenAndServe], Exits 1)
      | None \<Rightarrow>
          if interrupt s
          then (SignalNotify # GoListenAndServe # fst (Stop s), snd (Stop s))
          else ([SignalNotify, GoListenAndServe], Blocks))"

definition Start :: "collaborators \<Rightarrow> call list \<times> result" where
  "Start s =
     assert_Component DB (db_is_Component s)
      (invoke DbStart (db_Start s) (\<lambda>err. Wrap err ''failed to start db'')
        (assert_Component MQTT (mqtt_is_Component s)
          (invoke MqttStart (mqtt_Start s) (\<lambda>err. Wrap err ''failed to start mqtt client'')
            (invoke DbMigrateUp (db_MigrateUp s) (\<lambda>err. Wrap err ''failed to migrate the database'')
              (invoke EncStart (enc_Start s) (\<lambda>err. Wrap err ''failed to start encoder'')
                (serve s))))))"

text \<open>A run in which every collaborator does its work and an interrupt arrives.\<close>

definition healthy :: collaborators where
  "healthy =
     \<lparr> db_is_Component = True, mqtt_is_Component = True,
       db_Start = Ok, mqtt_Start = Ok, db_MigrateUp = Ok, enc_Start = Ok,
       srv_ListenAndServe = None, interrupt = True,
       enc_Stop = Ok, mqtt_Stop = Ok, db_Stop = Ok, srv_idle_after = Some 0 \<rparr>"

subsection \<open>NewServer\<close>

text \<open>
  The values \<^verbatim>\<open>NewServer\<close> builds. The constructors of the collaborators are outside the
  file; each is modelled as the record of the arguments it is given. A \<^verbatim>\<open>kitlog.Logger\<close>
  is the list of its key/value context, which \<^verbatim>\<open>kitlog.With\<close> extends.
\<close>

type_synonym Logger = "string list"

definition With :: "Logger \<Rightarrow> string \<Rightarrow> string \<Rightarrow> Logger" where
  "With lg k v = lg @ [k, v]"

record DB =
  db_connStr :: string
  db_encryptionPassword :: string
  db_logger :: Logger

record DatastoreClient =
  ds_addr :: string

record MqttClient =
  mc_logger :: Logger
  mc_db :: DB
  mc_ds :: DatastoreClient

record Encoder =
  enc_logger :: Logger
  enc_mqtt :: MqttClient
  enc_db :: DB

datatype Handler = TwirpHandler Encoder | PulseHandlerFunc | MetricsHandler

record HttpServer =
  Addr :: string
  Mux :: "(string \<times> Handler) list"

record Server =
  srv :: HttpServer
  enc :: Encoder
  db :: DB
  mqtt :: MqttClient
  logger :: Logger

definition NewDB :: "string \<Rightarrow> string \<Rightarrow> Logger \<Rightarrow> DB" where
  "NewDB connStr encryptionPassword lg =
     \<lparr> db_connStr = connStr, db_encryptionPassword = encryptionPassword, db_logger = lg \<rparr>"

definition NewDatastoreProtobufClient :: "string \<Rightarrow> DatastoreClient" where
  "NewDatastoreProtobufClient a = \<lparr> ds_addr = a \<rparr>"

definition NewClient :: "Logger \<Rightarrow> DB \<Rightarrow> DatastoreClient \<Rightarrow> MqttClient" where
  "NewClient lg d ds = \<lparr> mc_logger = lg, mc_db = d, mc_ds = ds \<rparr>"

definition NewEncoder :: "Logger \<Rightarrow> MqttClient \<Rightarrow> DB \<Rightarrow> Encoder" where
  "NewEncoder lg mc d = \<lparr> enc_logger = lg, enc_mqtt = mc, enc_db = d \<rparr>"

definition EncoderPathPrefix :: string where
  "EncoderPathPrefix = ''/twirp/decode.iot.encoder.Encoder/''"

definition NewServer :: "string \<Rightarrow> string \<Rightarrow> string \<Rightarrow> Logger \<Rightarrow> Server" where
  "NewServer addr connStr encryptionPassword lg0 =
     (let d = NewDB connStr encryptionPassword lg0;
          ds = NewDatastoreProtobufClient ''http://192.168.1.116:8081'';
          mc = NewClient lg0 d ds;
          e = NewEncoder lg0 mc d;
          lg = With lg0 ''module'' ''server'';
          mux = [(EncoderPathPrefix, TwirpHandler e),
                 (''/pulse'', PulseHandlerFunc),
                 (''/metrics'', MetricsHandler)];
          hs = \<lparr> Addr = addr, Mux = mux \<rparr>
      in \<lparr> srv = hs, enc = e, db = d, mqtt = mc, logger = With lg ''module'' ''server'' \<rparr>)"

subsection \<open>PulseHandler\<close>

text \<open>
  An \<^verbatim>\<open>http.Request\<close>, and an \<^verbatim>\<open>http.ResponseWriter\<close> as the bytes written to it so far.
  \<^verbatim>\<open>fmt.Fprintf(w, format)\<close> with no operand and a format without verbs writes the format
  as it is; the handler ignores its result.
\<close>

record Request =
  Method :: string
  Path :: string
  Header :: "(string \<times> string) list"
  Body :: string

record ResponseWriter =
  written :: string

definition Fprintf :: "ResponseWriter \<Rightarrow> string \<Rightarrow> ResponseWriter" where
  "Fprintf w format = w\<lparr> written := written w @ format \<rparr>"

definition PulseHandler :: "ResponseWriter \<Rightarrow> Request \<Rightarrow> ResponseWriter" where
  "PulseHandler w r = Fprintf w ''ok''"

subsection \<open>Orders of calls\<close>

text \<open>\<open>before a b tr\<close>: in the run \<open>tr\<close>, no \<open>b\<close> happens unless an \<open>a\<close> has happened earlier.\<close>

definition before :: "call \<Rightarrow> call \<Rightarrow> call list \<Rightarrow> bool" where
  "before a b tr = (b \<notin> set (takeWhile (\<lambda>c. c \<noteq> a) tr))"

fun is_startup_step :: "call \<Rightarrow> bool" where
  "is_startup_step DbStart = True"
| "is_startup_step MqttStart = True"
| "is_startup_step DbMigrateUp = True"
| "is_startup_step EncStart = True"
| "is_startup_step GoListenAndServe = True"
| "is_startup_step c = False"

fun is_stop_step :: "call \<Rightarrow> bool" where
  "is_stop_step EncStop = True"
| "is_stop_step MqttStop = True"
| "is_stop_step DbStop = True"
| "is_stop_step (SrvShutdown ctx) = True"
| "is_stop_step c = False"

text \<open>
  The start order as the specification words it: storage started and migrated, then the
  broker connected, then recovery (the start of the encoder), then the RPC surface.
\<close>

definition spec_start_order :: "call list \<Rightarrow> bool" where
  "spec_start_order tr =
     (before DbStart DbMigrateUp tr \<and> before DbMigrateUp MqttStart tr \<and>
      before MqttStart EncStart tr \<and> before EncStart GoListenAndServe tr)"



text \<open>The context a call is given, if it is given one.\<close>

fun ctx_of :: "call \<Rightarrow> go_context option" where
  "ctx_of (SrvShutdown ctx) = Some ctx"
| "ctx_of c = None"

text \<open>
  The specification's cancellation rule, read on a run of \<open>Stop\<close>: every call that stops a
  collaborator carries the context with the grace period.
\<close>

definition cancellation_propagated :: "call list \<Rightarrow> bool" where
  "cancellation_propagated tr =
     list_all (\<lambda>c. ctx_of c = Some (WithTimeout (5 * Second))) (filter is_stop_step tr)"



section \<open>The create transition of the subscription manager\<close>




datatype rpc_error = InvalidArgument | Internal | UnknownStream











definition refused :: error where
  "refused = Error ''connection refused''"

section \<open>Properties\<close>

subsection \<open>Unfolding the runs\<close>

lemma invoke_simps:
  "invoke c Ok f rest = (c # fst rest, snd rest)"
  "invoke c (Fails err) f rest = ([c], Returns (Some (f err)))"
  "invoke c Hangs f rest = ([c], Blocks)"
  by (simp_all add: invoke_def)

lemma assert_Component_simps:
  "assert_Component h True rest = (AssertComponent h # fst rest, snd rest)"
  "assert_Component h False rest = ([AssertComponent h], Panics)"
  by (simp_all add: assert_Component_def)

lemmas run_defs = Start_def serve_def Stop_def invoke_def assert_Component_def Let_def

subsection \<open>PulseHandler and NewServer\<close>

text \<open>
  Claim C10. \<^verbatim>\<open>PulseHandler\<close> writes \<^verbatim>\<open>ok\<close> to the response writer for every request: the
  request is not read, so method, path, headers and body make no difference, and on a
  writer that has nothing written yet the body is exactly \<^verbatim>\<open>ok\<close>.
\<close>

theorem PulseHandler_writes_ok:
  "written (PulseHandler w r) = written w @ ''ok'' \<and>
   written (PulseHandler \<lparr> written = [] \<rparr> r) = ''ok''"
  by (simp add: PulseHandler_def Fprintf_def)

text \<open>
  Claim C9. Whatever \<^verbatim>\<open>addr\<close>, \<^verbatim>\<open>connStr\<close>, \<^verbatim>\<open>encryptionPassword\<close> and \<^verbatim>\<open>logger\<close> are, the
  datastore client of the server built by \<^verbatim>\<open>NewServer\<close> (the one held by its MQTT client,
  which is also the one its encoder reaches) has the address
  \<^verbatim>\<open>http://192.168.1.116:8081\<close>.
\<close>

theorem NewServer_datastore_address:
  "ds_addr (mc_ds (mqtt (NewServer addr connStr encryptionPassword lg))) =
     ''http://192.168.1.116:8081'' \<and>
   ds_addr (mc_ds (enc_mqtt (enc (NewServer addr connStr encryptionPassword lg)))) =
     ''http://192.168.1.116:8081''"
  by (simp add: NewServer_def NewClient_def NewEncoder_def NewDatastoreProtobufClient_def Let_def)

subsection \<open>Errors of Start and Stop\<close>

text \<open>
  Claim C7. When a startup step of \<^verbatim>\<open>Start\<close> (the start of the database, the start of the
  MQTT client, the migration, the start of the encoder) returns an error, \<^verbatim>\<open>Start\<close> returns
  that error wrapped with the message of the step, and the run ends with the failed step:
  no later step is called. The result is a returned error, not a panic.
\<close>

theorem Start_propagates_errors:
  "(db_is_Component s \<and> db_Start s = Fails err \<longrightarrow>
      Start s = ([AssertComponent DB, DbStart],
                 Returns (Some (Wrap err ''failed to start db'')))) \<and>
   (db_is_Component s \<and> db_Start s = Ok \<and> mqtt_is_Component s \<and> mqtt_Start s = Fails err \<longrightarrow>
      Start s = ([AssertComponent DB, DbStart, AssertComponent MQTT, MqttStart],
                 Returns (Some (Wrap err ''failed to start mqtt client'')))) \<and>
   (db_is_Component s \<and> db_Start s = Ok \<and> mqtt_is_Component s \<and> mqtt_Start s = Ok \<and>
    db_MigrateUp s = Fails err \<longrightarrow>
      Start s = ([AssertComponent DB, DbStart, AssertComponent MQTT, MqttStart, DbMigrateUp],
                 Returns (Some (Wrap err ''failed to migrate the database'')))) \<and>
   (db_is_Component s \<and> db_Start s = Ok \<and> mqtt_is_Component s \<and> mqtt_Start s = Ok \<and>
    db_MigrateUp s = Ok \<and> enc_Start s = Fails err \<longrightarrow>
      Start s = ([AssertComponent DB, DbStart, AssertComponent MQTT, MqttStart, DbMigrateUp,
                  EncStart],
                 Returns (Some (Wrap err ''failed to start encoder''))))"
  by (simp add: Start_def invoke_simps assert_Component_simps)

theorem Start_propagates_errors_witness:
  "Start (healthy\<lparr> db_Start := Fails refused \<rparr>) =
     ([AssertComponent DB, DbStart], Returns (Some (Wrap refused ''failed to start db''))) \<and>
   Start (healthy\<lparr> mqtt_Start := Fails refused \<rparr>) =
     ([AssertComponent DB, DbStart, AssertComponent MQTT, MqttStart],
      Returns (Some (Wrap refused ''failed to start mqtt client''))) \<and>
   Start (healthy\<lparr> db_MigrateUp := Fails refused \<rparr>) =
     ([AssertComponent DB, DbStart, AssertComponent MQTT, MqttStart, DbMigrateUp],
      Returns (Some (Wrap refused ''failed to migrate the database''))) \<and>
   Start (healthy\<lparr> enc_Start := Fails refused \<rparr>) =
     ([AssertComponent DB, DbStart, AssertComponent MQTT, MqttStart, DbMigrateUp, EncStart],
      Returns (Some (Wrap refused ''failed to start encoder''))) \<and>
   Error_string (Wrap refused ''failed to start encoder'') =
     ''failed to start encoder: connection refused''"
  using Start_propagates_errors [of "healthy\<lparr> db_Start := Fails refused \<rparr>" refused]
    Start_propagates_errors [of "healthy\<lparr> mqtt_Start := Fails refused \<rparr>" refused]
    Start_propagates_errors [of "healthy\<lparr> db_MigrateUp := Fails refused \<rparr>" refused]
    Start_propagates_errors [of "healthy\<lparr> enc_Start := Fails refused \<rparr>" refused]
  by (simp add: healthy_def refused_def)

text \<open>
  Claim C8. \<^verbatim>\<open>Stop\<close> ends at the first component whose \<^verbatim>\<open>Stop\<close> returns an error: it returns
  that error as it is, and the components after it, the HTTP server among them, are not
  stopped.
\<close>

theorem Stop_short_circuits:
  "(enc_Stop s = Fails err \<longrightarrow> Stop s = ([EncStop], Returns (Some err))) \<and>
   (enc_Stop s = Ok \<and> mqtt_is_Component s \<and> mqtt_Stop s = Fails err \<longrightarrow>
      Stop s = ([EncStop, AssertComponent MQTT, MqttStop], Returns (Some err))) \<and>
   (enc_Stop s = Ok \<and> mqtt_is_Component s \<and> mqtt_Stop s = Ok \<and> db_is_Component s \<and>
    db_Stop s = Fails err \<longrightarrow>
      Stop s = ([EncStop, AssertComponent MQTT, MqttStop, AssertComponent DB, DbStop],
                Returns (Some err)))"
  by (simp add: Stop_def invoke_simps assert_Component_simps)

theorem Stop_short_circuits_witness:
  "Stop (healthy\<lparr> enc_Stop := Fails refused \<rparr>) = ([EncStop], Returns (Some refused)) \<and>
   Stop (healthy\<lparr> mqtt_Stop := Fails refused \<rparr>) =
     ([EncStop, AssertComponent MQTT, MqttStop], Returns (Some refused)) \<and>
   Stop (healthy\<lparr> db_Stop := Fails refused \<rparr>) =
     ([EncStop, AssertComponent MQTT, MqttStop, AssertComponent DB, DbStop],
      Returns (Some refused)) \<and>
   SrvShutdown (WithTimeout (5 * Second)) \<notin> set (fst (Stop (healthy\<lparr> db_Stop := Fails refused \<rparr>)))"
  using Stop_short_circuits [of "healthy\<lparr> enc_Stop := Fails refused \<rparr>" refused]
    Stop_short_circuits [of "healthy\<lparr> mqtt_Stop := Fails refused \<rparr>" refused]
    Stop_short_circuits [of "healthy\<lparr> db_Stop := Fails refused \<rparr>" refused]
  by (simp add: healthy_def)

subsection \<open>The order of startup\<close>

text \<open>
  Claim C4. In every run of \<^verbatim>\<open>Start\<close> the goroutine that serves HTTP is launched only
  after the MQTT client and the encoder have been started and both starts have returned
  \<^verbatim>\<open>nil\<close>: the listener is never launched before them.
\<close>

theorem listener_after_recovery:
  "before MqttStart GoListenAndServe (fst (Start s)) \<and>
   before EncStart GoListenAndServe (fst (Start s)) \<and>
   (GoListenAndServe \<in> set (fst (Start s)) \<longrightarrow>
      mqtt_Start s = Ok \<and> enc_Start s = Ok \<and>
      MqttStart \<in> set (fst (Start s)) \<and> EncStart \<in> set (fst (Start s)))"
  by (auto simp: run_defs before_def split: outcome.splits option.splits)

theorem listener_after_recovery_witness:
  "GoListenAndServe \<in> set (fst (Start healthy)) \<and>
   mqtt_Start healthy = Ok \<and> enc_Start healthy = Ok \<and>
   before MqttStart GoListenAndServe (fst (Start healthy)) \<and>
   before EncStart GoListenAndServe (fst (Start healthy))"
  using listener_after_recovery [of healthy]
  by (simp add: run_defs healthy_def)

text \<open>
  Claim C1, as amended. The startup steps of \<^verbatim>\<open>Start\<close> run in the order: start of the
  database, start of the MQTT client, migration of the database, start of the encoder,
  launch of the HTTP listener. Every run of \<^verbatim>\<open>Start\<close> performs an initial part of this
  chain, and a step is performed only when the step before it has returned \<^verbatim>\<open>nil\<close>.
\<close>

theorem Start_order:
  "prefix (filter is_startup_step (fst (Start s)))
          [DbStart, MqttStart, DbMigrateUp, EncStart, GoListenAndServe] \<and>
   (MqttStart \<in> set (fst (Start s)) \<longrightarrow> db_Start s = Ok) \<and>
   (DbMigrateUp \<in> set (fst (Start s)) \<longrightarrow> mqtt_Start s = Ok) \<and>
   (EncStart \<in> set (fst (Start s)) \<longrightarrow> db_MigrateUp s = Ok) \<and>
   (GoListenAndServe \<in> set (fst (Start s)) \<longrightarrow> enc_Start s = Ok)"
  by (auto simp: run_defs split: outcome.splits option.splits)

theorem Start_order_witness:
  "GoListenAndServe \<in> set (fst (Start healthy)) \<and> enc_Start healthy = Ok \<and>
   EncStart \<in> set (fst (Start healthy)) \<and> db_MigrateUp healthy = Ok \<and>
   DbMigrateUp \<in> set (fst (Start healthy)) \<and> mqtt_Start healthy = Ok \<and>
   MqttStart \<in> set (fst (Start healthy)) \<and> db_Start healthy = Ok \<and>
   filter is_startup_step (fst (Start healthy)) =
     [DbStart, MqttStart, DbMigrateUp, EncStart, GoListenAndServe]"
  using Start_order [of healthy]
  by (simp add: run_defs healthy_def)

text \<open>
  Claim C1 as stated fails: in the healthy run the MQTT client is started before the
  database is migrated, and when the migration fails the MQTT client has been started all
  the same.
\<close>

theorem Start_spec_order_counterexample:
  "\<not> spec_start_order (fst (Start healthy)) \<and>
   Start (healthy\<lparr> db_MigrateUp := Fails refused \<rparr>) =
     ([AssertComponent DB, DbStart, AssertComponent MQTT, MqttStart, DbMigrateUp],
      Returns (Some (Wrap refused ''failed to migrate the database'')))"
  by (simp add: run_defs healthy_def spec_start_order_def before_def)

subsection \<open>The order and the deadline of shutdown\<close>




text \<open>
  Claim C5, as amended. In a run of \<^verbatim>\<open>Stop\<close> the context with the deadline is given to the
  shutdown of the HTTP server and to no other call. The \<^verbatim>\<open>Stop\<close> of the encoder, of the
  MQTT client and of the database takes no context, and when one of them never returns,
  \<^verbatim>\<open>Stop\<close> blocks: the call is not aborted.
\<close>

theorem context_reaches_shutdown_only:
  "(\<forall>c \<in> set (fst (Stop s)).
      (ctx_of c \<noteq> None) = (c = SrvShutdown (WithTimeout (5 * Second)))) \<and>
   (enc_Stop s = Hangs \<longrightarrow> snd (Stop s) = Blocks) \<and>
   (enc_Stop s = Ok \<and> mqtt_is_Component s \<and> mqtt_Stop s = Hangs \<longrightarrow>
      snd (Stop s) = Blocks) \<and>
   (enc_Stop s = Ok \<and> mqtt_is_Component s \<and> mqtt_Stop s = Ok \<and> db_is_Component s \<and>
    db_Stop s = Hangs \<longrightarrow> snd (Stop s) = Blocks)"
  by (auto simp: run_defs split: outcome.splits option.splits)

theorem context_reaches_shutdown_only_witness:
  "SrvShutdown (WithTimeout (5 * Second)) \<in> set (fst (Stop healthy)) \<and>
   EncStop \<in> set (fst (Stop healthy)) \<and> ctx_of EncStop = None \<and>
   MqttStop \<in> set (fst (Stop healthy)) \<and> ctx_of MqttStop = None \<and>
   DbStop \<in> set (fst (Stop healthy)) \<and> ctx_of DbStop = None \<and>
   enc_Stop (healthy\<lparr> enc_Stop := Hangs \<rparr>) = Hangs \<and>
   snd (Stop (healthy\<lparr> enc_Stop := Hangs \<rparr>)) = Blocks \<and>
   mqtt_Stop (healthy\<lparr> mqtt_Stop := Hangs \<rparr>) = Hangs \<and>
   snd (Stop (healthy\<lparr> mqtt_Stop := Hangs \<rparr>)) = Blocks \<and>
   db_Stop (healthy\<lparr> db_Stop := Hangs \<rparr>) = Hangs \<and>
   snd (Stop (healthy\<lparr> db_Stop := Hangs \<rparr>)) = Blocks"
  using context_reaches_shutdown_only [of healthy]
    context_reaches_shutdown_only [of "healthy\<lparr> enc_Stop := Hangs \<rparr>"]
    context_reaches_shutdown_only [of "healthy\<lparr> mqtt_Stop := Hangs \<rparr>"]
    context_reaches_shutdown_only [of "healthy\<lparr> db_Stop := Hangs \<rparr>"]
  by (simp add: healthy_def run_defs)

text \<open>
  Claim C5 as stated fails: in the healthy run the three component stops carry no
  context, and a \<^verbatim>\<open>Stop\<close> of the database that never returns is not aborted.
\<close>

theorem cancellation_counterexample:
  "\<not> cancellation_propagated (fst (Stop healthy)) \<and>
   Stop (healthy\<lparr> db_Stop := Hangs \<rparr>) =
     ([EncStop, AssertComponent MQTT, MqttStop, AssertComponent DB, DbStop], Blocks)"
  by (simp add: run_defs healthy_def cancellation_propagated_def)

subsection \<open>Type assertions\<close>




subsection \<open>The compensating delete of CreateStream\<close>




end
